theory Spec2Isabelle
  imports Complex_Main "HOL-Library.Log_Nat"
begin

section \<open>Physicochemical descriptor calculation (Contrib/hit_likeness/physchem_calc.py)\<close>

text \<open>
  The script reads a window of lines of a structure file, turns every line into a pair
  (structure notation, title), hands each pair to \<open>calc\<close> through an ordered pool map and
  writes one tab-separated row per computed record.

  Strings are lists of Isabelle characters (code points 0 to 255).  A text file is the list
  of its lines as iteration over the file object delivers them.
\<close>

subsection \<open>Exceptions\<close>

datatype error = IndexError | ValueError | ZeroDivisionError | StopIteration | RuntimeError

subsection \<open>String operations of the language\<close>

definition TAB :: char where
  "TAB = CHR 0x09"

definition NL :: char where
  "NL = CHR 0x0A"

text \<open>The characters \<open>str.isspace\<close> accepts, among the code points below 256.\<close>

definition whitespace :: "char list" where
  "whitespace = [CHR 0x09, CHR 0x0A, CHR 0x0B, CHR 0x0C, CHR 0x0D,
                 CHR 0x1C, CHR 0x1D, CHR 0x1E, CHR 0x1F, CHR 0x20, CHR 0x85, CHR 0xA0]"

definition isspace :: "char \<Rightarrow> bool" where
  "isspace c = (c \<in> set whitespace)"

text \<open>\<open>s.strip()\<close>: leading and trailing whitespace removed.\<close>

definition strip :: "string \<Rightarrow> string" where
  "strip s = rev (dropWhile isspace (rev (dropWhile isspace s)))"

text \<open>
  \<open>s.split()\<close> with no separator: the maximal runs of non-whitespace characters.  The first
  argument is the run collected so far, in reverse.
\<close>

fun split_ws_aux :: "string \<Rightarrow> string \<Rightarrow> string list" where
  "split_ws_aux w [] = (if w = [] then [] else [rev w])"
| "split_ws_aux w (c # cs) =
     (if isspace c then (if w = [] then split_ws_aux [] cs else rev w # split_ws_aux [] cs)
      else split_ws_aux (c # w) cs)"

definition split_ws :: "string \<Rightarrow> string list" where
  "split_ws s = split_ws_aux [] s"

text \<open>
  \<open>s.split(sep)\<close> with a non-empty separator string: cut at every occurrence of \<open>sep\<close>,
  scanning from the left, occurrences not overlapping.  The second argument is the field
  collected so far, in reverse.
\<close>

fun split_sep_aux :: "string \<Rightarrow> string \<Rightarrow> string \<Rightarrow> string list" where
  "split_sep_aux sep w [] = [rev w]"
| "split_sep_aux sep w (c # cs) =
     (if sep \<noteq> [] \<and> take (length sep) (c # cs) = sep
      then rev w # split_sep_aux sep [] (drop (length sep - 1) cs)
      else split_sep_aux sep (c # w) cs)"

text \<open>
  \<open>s.split(sep)\<close> as the reader calls it: \<open>sep\<close> is \<open>None\<close> (whitespace splitting) or a
  string; the empty string as separator raises \<open>ValueError\<close>.
\<close>

definition split :: "string option \<Rightarrow> string \<Rightarrow> error + string list" where
  "split sep s =
     (case sep of
        None \<Rightarrow> Inr (split_ws s)
      | Some d \<Rightarrow> if d = [] then Inl ValueError else Inr (split_sep_aux d [] s))"

text \<open>\<open>items[k]\<close>: an index out of range raises \<open>IndexError\<close>.\<close>

definition getitem :: "'a list \<Rightarrow> nat \<Rightarrow> error + 'a" where
  "getitem xs k = (if k < length xs then Inr (xs ! k) else Inl IndexError)"

subsection \<open>The reader \<open>read_smi\<close>\<close>

text \<open>
  What the generator does is the list of the pairs it yields and the way it ends: \<open>None\<close>
  when the file is exhausted, \<open>Some e\<close> when its body raises \<open>e\<close>.  The explicit
  \<open>raise StopIteration\<close> of the source is recorded as such.
\<close>

type_synonym smi_record = "string \<times> string"

type_synonym generated = "smi_record list \<times> error option"

definition yield :: "smi_record \<Rightarrow> generated \<Rightarrow> generated" where
  "yield r g = (r # fst g, snd g)"

text \<open>\<open>i < end_pos\<close>, where \<open>end_pos\<close> is an integer or \<open>float("inf")\<close> (here \<open>None\<close>).\<close>

definition before_end :: "nat \<Rightarrow> int option \<Rightarrow> bool" where
  "before_end i end_pos = (case end_pos of None \<Rightarrow> True | Some e \<Rightarrow> int i < e)"

text \<open>The body of the loop for a line inside the window: the pair it yields, or the exception.\<close>

definition line_items :: "string option \<Rightarrow> string \<Rightarrow> error + smi_record" where
  "line_items sep line =
     (case split sep (strip line) of
        Inl e \<Rightarrow> Inl e
      | Inr items \<Rightarrow>
          if length items = 1
          then (case getitem items 0 of Inl e \<Rightarrow> Inl e | Inr a \<Rightarrow> Inr (a, a))
          else (case getitem items 0 of
                  Inl e \<Rightarrow> Inl e
                | Inr a \<Rightarrow> (case getitem items 1 of Inl e \<Rightarrow> Inl e | Inr b \<Rightarrow> Inr (a, b))))"

text \<open>\<open>for i, line in enumerate(f)\<close>, from index \<open>i\<close> on.\<close>

fun read_loop :: "string option \<Rightarrow> int \<Rightarrow> int option \<Rightarrow> nat \<Rightarrow> string list \<Rightarrow> generated" where
  "read_loop sep start_pos end_pos i [] = ([], None)"
| "read_loop sep start_pos end_pos i (line # rest) =
     (if start_pos \<le> int i then
        (if before_end i end_pos then
           (case line_items sep line of
              Inl e \<Rightarrow> ([], Some e)
            | Inr r \<Rightarrow> yield r (read_loop sep start_pos end_pos (Suc i) rest))
         else ([], Some StopIteration))
      else read_loop sep start_pos end_pos (Suc i) rest)"

definition read_smi :: "string list \<Rightarrow> string option \<Rightarrow> int \<Rightarrow> int option \<Rightarrow> generated" where
  "read_smi f sep start_pos nlines =
     read_loop sep (start_pos - 1) (map_option (\<lambda>n. start_pos - 1 + n) nlines) 0 f"

subsection \<open>The chemistry toolkit and the floating-point operations\<close>

text \<open>
  The calculator only calls the toolkit; the toolkit is therefore a parameter, a record of
  the functions \<open>calc\<close> uses, over a type \<open>'m\<close> of molecules and a type \<open>'f\<close> of floating-point
  values.  \<open>MolFromSmiles\<close> returns \<open>None\<close> for a string it cannot parse.  The counts are the
  toolkit's unsigned integers.
\<close>

record ('m, 'f) toolkit =
  MolFromSmiles :: "string \<Rightarrow> 'm option"
  CalcNumHBA :: "'m \<Rightarrow> nat"
  CalcNumHBD :: "'m \<Rightarrow> nat"
  CalcNumRings :: "'m \<Rightarrow> nat"
  CalcNumRotatableBonds :: "'m \<Rightarrow> nat"
  CalcTPSA :: "'m \<Rightarrow> 'f"
  CalcCrippenDescriptors :: "'m \<Rightarrow> 'f \<times> 'f"
  CalcMolWt :: "'m \<Rightarrow> 'f"
  CalcFractionCSP3 :: "'m \<Rightarrow> 'f"
  GetScaffoldForMol :: "'m \<Rightarrow> 'm"
  GetNumHeavyAtoms :: "'m \<Rightarrow> nat"
  qed_score :: "'m \<Rightarrow> 'f"

text \<open>
  The floating-point operations of the language that the script uses, again as a parameter:
  \<open>quotient a b\<close> is \<open>a / b\<close> on integers for a divisor that is not zero, \<open>round_to x n\<close> is
  \<open>round(x, n)\<close> and \<open>str_float\<close> is \<open>str\<close> on a float.
\<close>

record 'f floats =
  quotient :: "nat \<Rightarrow> nat \<Rightarrow> 'f"
  round_to :: "'f \<Rightarrow> nat \<Rightarrow> 'f"
  str_float :: "'f \<Rightarrow> string"

text \<open>\<open>a / b\<close> on two integers: division by zero raises.\<close>

definition truediv :: "'f floats \<Rightarrow> nat \<Rightarrow> nat \<Rightarrow> error + 'f" where
  "truediv fl a b = (if b = 0 then Inl ZeroDivisionError else Inr (quotient fl a b))"

subsection \<open>The calculator \<open>calc\<close>\<close>

text \<open>The values a result tuple holds; the tuple itself is the list of its components.\<close>

datatype 'f pyval = PyStr string | PyInt int | PyFloat 'f

definition descriptor_names :: "string list" where
  "descriptor_names = [''HBA'', ''HBD'', ''complexity'', ''NumRings'', ''RTB'', ''TPSA'',
                       ''logP'', ''MR'', ''MW'', ''Csp3'', ''fmf'', ''qed'']"

text \<open>The text \<open>'smiles %s cannot be parsed (%s)' % (smi, name)\<close>.\<close>

definition parse_error_message :: "string \<Rightarrow> string \<Rightarrow> string" where
  "parse_error_message smi name = ''smiles '' @ smi @ '' cannot be parsed ('' @ name @ '')''"

text \<open>
  \<open>calc(smi, name)\<close>.  The error stream is the list of the texts written to it, passed in
  and returned.  The result is the exception raised, or the value returned: \<open>None\<close>, or the
  tuple.
\<close>

definition calc ::
  "('m, 'f) toolkit \<Rightarrow> 'f floats \<Rightarrow> string \<Rightarrow> string \<Rightarrow> string list
     \<Rightarrow> (error + 'f pyval list option) \<times> string list" where
  "calc tk fl smi name stderr =
     (case MolFromSmiles tk smi of
        Some m \<Rightarrow>
          (let hba = CalcNumHBA tk m;
               hbd = CalcNumHBD tk m;
               nrings = CalcNumRings tk m;
               rtb = CalcNumRotatableBonds tk m;
               psa = CalcTPSA tk m;
               (logp, mr) = CalcCrippenDescriptors tk m;
               mw = CalcMolWt tk m;
               csp3 = CalcFractionCSP3 tk m
           in case truediv fl (GetNumHeavyAtoms tk (GetScaffoldForMol tk m))
                     (GetNumHeavyAtoms tk m) of
                Inl e \<Rightarrow> (Inl e, stderr)
              | Inr fmf \<Rightarrow>
                  (let qed = qed_score tk m
                   in (Inr (Some [PyStr name, PyInt (int hba), PyInt (int hbd), PyInt (int (hba + hbd)),
                                  PyInt (int nrings), PyInt (int rtb),
                                  PyFloat (round_to fl psa 2), PyFloat (round_to fl logp 2),
                                  PyFloat (round_to fl mr 2), PyFloat (round_to fl mw 2),
                                  PyFloat (round_to fl csp3 3), PyFloat (round_to fl fmf 3),
                                  PyFloat (round_to fl qed 3)]),
                       stderr)))
      | None \<Rightarrow> (Inr None, stderr @ [parse_error_message smi name]))"

text \<open>\<open>calc_mp(items)\<close> is \<open>calc(*items)\<close>: the first component is \<open>smi\<close>, the second \<open>name\<close>.\<close>

definition calc_mp ::
  "('m, 'f) toolkit \<Rightarrow> 'f floats \<Rightarrow> smi_record \<Rightarrow> string list
     \<Rightarrow> (error + 'f pyval list option) \<times> string list" where
  "calc_mp tk fl items stderr = calc tk fl (fst items) (snd items) stderr"

subsection \<open>Writing the table\<close>

text \<open>\<open>str\<close> on a non-negative integer, on an integer, and on a component of a tuple.\<close>

definition digit :: "nat \<Rightarrow> char" where
  "digit d = ''0123456789'' ! d"

fun str_nat :: "nat \<Rightarrow> string" where
  "str_nat n = (if n < 10 then [digit n] else str_nat (n div 10) @ [digit (n mod 10)])"

declare str_nat.simps [simp del]

definition str_int :: "int \<Rightarrow> string" where
  "str_int i = (if i < 0 then ''-'' @ str_nat (nat (- i)) else str_nat (nat i))"

fun str_val :: "'f floats \<Rightarrow> 'f pyval \<Rightarrow> string" where
  "str_val fl (PyStr s) = s"
| "str_val fl (PyInt i) = str_int i"
| "str_val fl (PyFloat x) = str_float fl x"

text \<open>\<open>sep.join(xs)\<close>.\<close>

fun join :: "string \<Rightarrow> string list \<Rightarrow> string" where
  "join sep [] = []"
| "join sep [x] = x"
| "join sep (x # y # ys) = x @ sep @ join sep (y # ys)"

definition header_line :: string where
  "header_line = join [TAB] (''Name'' # descriptor_names) @ [NL]"

definition row_line :: "'f floats \<Rightarrow> 'f pyval list \<Rightarrow> string" where
  "row_line fl res = join [TAB] (map (str_val fl) res) @ [NL]"

text \<open>The text \<open>'\r%i molecules passed' % (i + 1)\<close>, for the count \<open>n = i + 1\<close>.\<close>

definition progress_message :: "nat \<Rightarrow> string" where
  "progress_message n = [CHR 0x0D] @ str_nat n @ '' molecules passed''"

subsection \<open>The main program\<close>

text \<open>
  The command line after \<open>argparse\<close>: an optional flag that was not given is \<open>None\<close>, the
  number of a numeric flag is its value under \<open>int\<close>.
\<close>

record arguments =
  arg_sep :: "string option"
  arg_startpos :: "int option"
  arg_lines :: "int option"
  arg_ncpu :: "int option"
  arg_verbose :: bool

text \<open>\<open>default=0\<close> for \<open>--startpos\<close>, \<open>default=1\<close> for \<open>--ncpu\<close>.\<close>

definition opt_start_pos :: "arguments \<Rightarrow> int" where
  "opt_start_pos a = (case arg_startpos a of None \<Rightarrow> 0 | Some v \<Rightarrow> v)"

definition opt_ncpu :: "arguments \<Rightarrow> int" where
  "opt_ncpu a = (case arg_ncpu a of None \<Rightarrow> 1 | Some v \<Rightarrow> v)"

text \<open>
  What the script takes from the interpreter and the machine: the number of cores, and
  whether a \<open>StopIteration\<close> raised inside a generator body ends the iteration (\<open>False\<close>) or
  is turned into \<open>RuntimeError\<close> (\<open>True\<close>).
\<close>

record runtime =
  cpu_count :: int
  generator_stop :: bool

text \<open>Iterating a generator to its end: the pairs it yields, unless it raises.\<close>

definition exhaust :: "bool \<Rightarrow> generated \<Rightarrow> error + smi_record list" where
  "exhaust stop g =
     (case snd g of
        None \<Rightarrow> Inr (fst g)
      | Some e \<Rightarrow>
          if e = StopIteration then (if stop then Inl RuntimeError else Inr (fst g))
          else Inl e)"

text \<open>
  \<open>p.imap(func, iterable, chunksize=100)\<close>.  The pool reads the iterable in chunks of 100
  items and hands every complete chunk, and the last, shorter one when the iterable ends,
  to a worker; the results come back in the order of the items, and an exception of \<open>func\<close>
  is raised when the loop reaches its chunk.  An exception of the iterable itself is
  raised in its place, after the results of the chunks read before it; the items of the
  chunk it interrupts are not handed out.

  \<open>dispatched\<close> is the list of the items handed to workers, \<open>imap\<close> the map over them in
  their order, up to the first exception; it threads the error stream.
\<close>

definition dispatched :: "nat \<Rightarrow> bool \<Rightarrow> generated \<Rightarrow> smi_record list" where
  "dispatched chunksize stop g =
     (case exhaust stop g of
        Inr recs \<Rightarrow> recs
      | Inl e \<Rightarrow> take (length (fst g) div chunksize * chunksize) (fst g))"

fun imap :: "('a \<Rightarrow> 's \<Rightarrow> (error + 'b) \<times> 's) \<Rightarrow> 'a list \<Rightarrow> 's \<Rightarrow> (error + 'b list) \<times> 's" where
  "imap func [] st = (Inr [], st)"
| "imap func (x # xs) st =
     (case func x st of
        (Inl e, st') \<Rightarrow> (Inl e, st')
      | (Inr y, st') \<Rightarrow>
          (case imap func xs st' of
             (Inl e, st'') \<Rightarrow> (Inl e, st'')
           | (Inr ys, st'') \<Rightarrow> (Inr (y # ys), st'')))"

text \<open>
  The loop \<open>for i, res in enumerate(...)\<close> from index \<open>i\<close> on; the state is the list of the
  texts written to the output file and the list of the progress texts written to the error
  stream.  \<open>if res\<close> holds for a tuple that is not empty.
\<close>

fun write_loop ::
  "'f floats \<Rightarrow> bool \<Rightarrow> nat \<Rightarrow> 'f pyval list option list \<Rightarrow> string list \<times> string list
     \<Rightarrow> string list \<times> string list" where
  "write_loop fl verbose i [] st = st"
| "write_loop fl verbose i (res # rest) st =
     (let out = (case res of
                   None \<Rightarrow> fst st
                 | Some t \<Rightarrow> if t \<noteq> [] then fst st @ [row_line fl t] else fst st);
          prog = (if verbose \<and> (i + 1) mod 1000 = 0 then snd st @ [progress_message (i + 1)]
                  else snd st)
      in write_loop fl verbose (Suc i) rest (out, prog))"

record run_output =
  out_file :: "string list"
  diagnostics :: "string list"
  progress :: "string list"

text \<open>
  The script from the pool's creation on.  A pool of fewer than one process raises
  \<open>ValueError\<close>.  An exception that nothing handles ends the run: that of the first record,
  in reading order, whose computation raises among the dispatched ones, otherwise that of
  the reader.  The file written up to that moment is not described.
\<close>

definition run ::
  "runtime \<Rightarrow> ('m, 'f) toolkit \<Rightarrow> 'f floats \<Rightarrow> arguments \<Rightarrow> string list \<Rightarrow> error + run_output" where
  "run rt tk fl a f =
     (if min (opt_ncpu a) (cpu_count rt) < 1 then Inl ValueError
      else
        (let g = read_smi f (arg_sep a) (opt_start_pos a) (arg_lines a)
         in case imap (calc_mp tk fl) (dispatched 100 (generator_stop rt) g) [] of
              (Inl e, diag) \<Rightarrow> Inl e
            | (Inr results, diag) \<Rightarrow>
                (case exhaust (generator_stop rt) g of
                   Inl e \<Rightarrow> Inl e
                 | Inr recs \<Rightarrow>
                     (let st = write_loop fl (arg_verbose a) 0 results ([header_line], [])
                      in Inr \<lparr>out_file = fst st, diagnostics = diag, progress = snd st\<rparr>))))"

subsection \<open>Notions the statements use\<close>

text \<open>
  The pair the reader yields is unpacked by \<open>calc_mp\<close> into \<open>smi\<close> and \<open>name\<close>: its first
  component is the structure notation, its second the identifier.
\<close>

definition structure_of :: "smi_record \<Rightarrow> string" where
  "structure_of r = fst r"

definition identifier_of :: "smi_record \<Rightarrow> string" where
  "identifier_of r = snd r"


text \<open>
  The lines in the range from line \<open>p\<close> (counted from 1) up to, not including, line \<open>p + n\<close>,
  or up to the end of the file when no count is given.
\<close>

definition window :: "nat \<Rightarrow> nat option \<Rightarrow> string list \<Rightarrow> string list" where
  "window p l f = (case l of None \<Rightarrow> drop (p - 1) f | Some n \<Rightarrow> take n (drop (p - 1) f))"

text \<open>
  The lines of a text: the pieces that a newline ends, and the rest after the last newline
  when it is not empty.  The first argument is the line collected so far, in reverse.
\<close>

fun text_lines_aux :: "string \<Rightarrow> string \<Rightarrow> string list" where
  "text_lines_aux w [] = (if w = [] then [] else [rev w])"
| "text_lines_aux w (c # cs) =
     (if c = NL then rev w # text_lines_aux [] cs else text_lines_aux (c # w) cs)"

definition text_lines :: "string \<Rightarrow> string list" where
  "text_lines s = text_lines_aux [] s"

subsection \<open>A small toolkit for evaluating the model\<close>

text \<open>
  Four molecules with tabulated descriptor values, and floating-point values as a sign
  with a magnitude that is a binary fraction of 53 significant bits.  The table stands in
  for the toolkit wherever a statement is evaluated on a concrete input.
\<close>

datatype sample_mol = Ethanol | Benzene | Proton | NoAtoms

definition sample_parse :: "string \<Rightarrow> sample_mol option" where
  "sample_parse s =
     (if s = ''CCO'' then Some Ethanol
      else if s = ''c1ccccc1'' then Some Benzene
      else if s = ''[H+]'' then Some Proton
      else if s = [] then Some NoAtoms
      else None)"

fun sample_heavy :: "sample_mol \<Rightarrow> nat" where
  "sample_heavy Ethanol = 3"
| "sample_heavy Benzene = 6"
| "sample_heavy Proton = 0"
| "sample_heavy NoAtoms = 0"

fun sample_scaffold :: "sample_mol \<Rightarrow> sample_mol" where
  "sample_scaffold Benzene = Benzene"
| "sample_scaffold Ethanol = NoAtoms"
| "sample_scaffold Proton = NoAtoms"
| "sample_scaffold NoAtoms = NoAtoms"

text \<open>The nearest integer, a tie going to the even one.\<close>

definition half_even :: "rat \<Rightarrow> int" where
  "half_even y =
     (let k = \<lfloor>y\<rfloor>;
          d = y - of_int k
      in if d < 1 / 2 then k else if 1 / 2 < d then k + 1
         else if even k then k else k + 1)"

definition pow2 :: "int \<Rightarrow> rat" where
  "pow2 e = (if 0 \<le> e then 2 ^ nat e else 1 / 2 ^ nat (- e))"

text \<open>
  The binary fraction of 53 significant bits nearest to a positive rational, a tie going to
  the even one: with \<open>e\<close> the exponent of the rational, the nearest multiple of \<open>2\<close> to the
  \<open>e - 52\<close>.  Exponents are not bounded.
\<close>

definition binary53 :: "rat \<Rightarrow> rat" where
  "binary53 x =
     (if x \<le> 0 then 0
      else
        (let k = int (floorlog 2 (nat (fst (quotient_of x)))) -
                 int (floorlog 2 (nat (snd (quotient_of x))));
             e = (if pow2 k \<le> x then k else k - 1);
             u = pow2 (e - 52)
         in of_int (half_even (x / u)) * u))"

text \<open>A value is its sign (\<open>True\<close> for minus) and its magnitude; zero has a sign too.\<close>

datatype sample_float = SFloat bool rat

definition double :: "rat \<Rightarrow> sample_float" where
  "double x = SFloat (x < 0) (binary53 \<bar>x\<bar>)"

text \<open>
  \<open>round(x, n)\<close>: the magnitude is rounded to \<open>n\<close> decimal places, a tie going to the even
  neighbour, and the decimal number so found is turned into the nearest value; the sign
  stays.
\<close>

fun sample_round :: "sample_float \<Rightarrow> nat \<Rightarrow> sample_float" where
  "sample_round (SFloat s x) n = SFloat s (binary53 (of_int (half_even (x * 10 ^ n)) / 10 ^ n))"

text \<open>
  \<open>str(x)\<close> for a value below \<open>10\<close> to the 16 that is nearest to a decimal number of at most
  three decimal places, as the values that the script prints are: the sign, the integer
  part, a point, and the decimals without trailing zeros (at least one).
\<close>

fun sample_str :: "sample_float \<Rightarrow> string" where
  "sample_str (SFloat s x) =
     (let k = nat (half_even (x * 1000));
          ds = [digit (k div 100 mod 10), digit (k div 10 mod 10), digit (k mod 10)];
          fr = rev (dropWhile (\<lambda>c. c = CHR ''0'') (rev ds))
      in (if s then ''-'' else []) @ str_nat (k div 1000) @ ''.'' @
         (if fr = [] then ''0'' else fr))"

definition sample_floats :: "sample_float floats" where
  "sample_floats =
     \<lparr>quotient = (\<lambda>a b. double (of_nat a / of_nat b)),
      round_to = sample_round,
      str_float = sample_str\<rparr>"

definition sample_toolkit :: "(sample_mol, sample_float) toolkit" where
  "sample_toolkit =
     \<lparr>MolFromSmiles = sample_parse,
      CalcNumHBA = (\<lambda>m. if m = Ethanol then 1 else 0),
      CalcNumHBD = (\<lambda>m. if m = Ethanol then 1 else 0),
      CalcNumRings = (\<lambda>m. if m = Benzene then 1 else 0),
      CalcNumRotatableBonds = (\<lambda>m. 0),
      CalcTPSA = (\<lambda>m. if m = Ethanol then double (2023 / 100) else double 0),
      CalcCrippenDescriptors =
        (\<lambda>m. if m = Ethanol then (double (- 14 / 10000), double (127598 / 10000))
             else if m = Benzene then (double (16866 / 10000), double (26442 / 1000))
             else (double 0, double 0)),
      CalcMolWt =
        (\<lambda>m. if m = Ethanol then double (46069 / 1000)
             else if m = Benzene then double (78114 / 1000)
             else if m = Proton then double (1008 / 1000)
             else double 0),
      CalcFractionCSP3 = (\<lambda>m. if m = Ethanol then double 1 else double 0),
      GetScaffoldForMol = sample_scaffold,
      GetNumHeavyAtoms = sample_heavy,
      qed_score =
        (\<lambda>m. if m = Ethanol then double (40681 / 100000)
             else if m = Benzene then double (44263 / 100000)
             else double (3 / 10))\<rparr>"

definition sample_runtime :: runtime where
  "sample_runtime = \<lparr>cpu_count = 4, generator_stop = False\<rparr>"

section \<open>Properties\<close>

subsection \<open>Splitting a line\<close>

lemma split_ws_aux_Nil_iff: "split_ws_aux w s = [] \<longleftrightarrow> w = [] \<and> (\<forall>c\<in>set s. isspace c)"
  by (induction s arbitrary: w) auto

lemma split_ws_Nil_iff: "split_ws s = [] \<longleftrightarrow> (\<forall>c\<in>set s. isspace c)"
  by (simp add: split_ws_def split_ws_aux_Nil_iff)

lemma strip_idem_blank: "(\<forall>c\<in>set (strip s). isspace c) \<longleftrightarrow> strip s = []"
proof
  assume a: "\<forall>c\<in>set (strip s). isspace c"
  show "strip s = []"
  proof (rule ccontr)
    assume n: "strip s \<noteq> []"
    let ?d = "dropWhile isspace (rev (dropWhile isspace s))"
    from n have d: "?d \<noteq> []" by (simp add: strip_def)
    then have "\<not> isspace (hd ?d)" by (rule hd_dropWhile)
    moreover from d have "hd ?d \<in> set (strip s)" by (simp add: strip_def)
    ultimately show False using a by blast
  qed
qed simp

lemma split_ws_strip_Nil_iff: "split_ws (strip s) = [] \<longleftrightarrow> strip s = []"
  by (simp add: split_ws_Nil_iff strip_idem_blank)

lemma split_sep_aux_not_Nil: "split_sep_aux d w s \<noteq> []"
  by (induction d w s rule: split_sep_aux.induct) auto

lemma line_items_blank: "strip line = [] \<Longrightarrow> line_items None line = Inl IndexError"
  by (simp add: line_items_def split_def split_ws_def getitem_def)

lemma line_items_empty_sep: "line_items (Some []) line = Inl ValueError"
  by (simp add: line_items_def split_def)

lemma line_items_ok:
  assumes "sep \<noteq> Some []" and "sep = None \<longrightarrow> strip line \<noteq> []"
  shows "\<exists>r. line_items sep line = Inr r"
proof (cases sep)
  case None
  with assms have "split_ws (strip line) \<noteq> []" by (simp add: split_ws_strip_Nil_iff)
  then show ?thesis using None
    by (cases "split_ws (strip line)") (auto simp: line_items_def split_def getitem_def)
next
  case (Some d)
  with assms have "d \<noteq> []" by simp
  moreover have "split_sep_aux d [] (strip line) \<noteq> []" by (rule split_sep_aux_not_Nil)
  ultimately show ?thesis using Some
    by (cases "split_sep_aux d [] (strip line)") (auto simp: line_items_def split_def getitem_def)
qed

lemma before_end_mono: "before_end j e \<Longrightarrow> i \<le> j \<Longrightarrow> before_end i e"
  by (auto simp: before_end_def split: option.splits)

lemma read_loop_skip:
  "int i + int (length pre) \<le> s \<Longrightarrow>
     read_loop sep s e i (pre @ rest) = read_loop sep s e (i + length pre) rest"
  by (induction pre arbitrary: i) auto

lemma read_loop_window:
  "s \<le> int i \<Longrightarrow> (ws \<noteq> [] \<longrightarrow> before_end (i + length ws - 1) e) \<Longrightarrow>
   \<forall>w\<in>set ws. \<exists>r. line_items sep w = Inr r \<Longrightarrow>
     map Inr (fst (read_loop sep s e i (ws @ rest))) =
       map (line_items sep) ws @ map Inr (fst (read_loop sep s e (i + length ws) rest)) \<and>
     snd (read_loop sep s e i (ws @ rest)) = snd (read_loop sep s e (i + length ws) rest)"
proof (induction ws arbitrary: i)
  case Nil
  then show ?case by simp
next
  case (Cons w ws)
  from Cons.prems(3) obtain r where r: "line_items sep w = Inr r" by auto
  from Cons.prems(2) have "before_end (i + length (w # ws) - 1) e" by simp
  then have be: "before_end i e" by (rule before_end_mono) simp
  have "s \<le> int (Suc i)" using Cons.prems(1) by simp
  moreover have "ws \<noteq> [] \<longrightarrow> before_end (Suc i + length ws - 1) e" using Cons.prems(2) by simp
  moreover have "\<forall>w\<in>set ws. \<exists>r. line_items sep w = Inr r" using Cons.prems(3) by simp
  ultimately have IH: "map Inr (fst (read_loop sep s e (Suc i) (ws @ rest))) =
       map (line_items sep) ws @ map Inr (fst (read_loop sep s e (Suc i + length ws) rest)) \<and>
     snd (read_loop sep s e (Suc i) (ws @ rest)) = snd (read_loop sep s e (Suc i + length ws) rest)"
    by (rule Cons.IH)
  show ?case using Cons.prems(1) be r IH by (simp add: yield_def)
qed


lemma read_loop_raise:
  "s \<le> int i \<Longrightarrow> before_end i e \<Longrightarrow> line_items sep line = Inl err \<Longrightarrow>
     read_loop sep s e i (line # rest) = ([], Some err)"
  by simp

subsection \<open>The window of the reader\<close>



lemma read_smi_skip:
  assumes "1 \<le> p"
  shows "read_smi f sep (int p) (map_option int l) =
           read_loop sep (int (p - 1)) (map_option (\<lambda>n. int (p - 1) + int n) l)
             (min (p - 1) (length f)) (drop (p - 1) f)"
proof -
  let ?s = "int (p - 1)" and ?e = "map_option (\<lambda>n. int (p - 1) + int n) l"
  have eq: "read_smi f sep (int p) (map_option int l) = read_loop sep ?s ?e 0 f"
    using assms by (simp add: read_smi_def option.map_comp comp_def of_nat_diff)
  have "int 0 + int (length (take (p - 1) f)) \<le> ?s" by simp
  then have "read_loop sep ?s ?e 0 (take (p - 1) f @ drop (p - 1) f) =
      read_loop sep ?s ?e (0 + length (take (p - 1) f)) (drop (p - 1) f)"
    by (rule read_loop_skip)
  with eq show ?thesis by (simp add: min.commute)
qed


lemma map_Inr_eq: "map Inr xs = map Inr ys \<Longrightarrow> xs = ys"
  by (simp add: inj_map_eq_map [OF inj_Inr])

lemmas eval_defs = read_smi_def before_end_def line_items_def split_def split_ws_def
  strip_def isspace_def whitespace_def getitem_def yield_def TAB_def NL_def window_def


subsection \<open>The reader\<close>



text \<open>
  When a line follows the window, the generator ends at that line by the
  \<open>raise StopIteration\<close> of the source, after the records of the window.
\<close>

lemma read_smi_line_after_window:
  "snd (read_smi [''CCO'' @ [TAB] @ ''ethanol'' @ [NL], ''CCN'' @ [NL],
                   ''c1ccccc1 benzene'' @ [NL], ''CCC propane extra'' @ [NL], ''C''] None 3 (Some 2)) =
     Some StopIteration \<and>
   exhaust False
     (read_smi [''CCO'' @ [TAB] @ ''ethanol'' @ [NL], ''CCN'' @ [NL],
                 ''c1ccccc1 benzene'' @ [NL], ''CCC propane extra'' @ [NL], ''C''] None 3 (Some 2)) =
     Inr [(''c1ccccc1'', ''benzene''), (''CCC'', ''propane'')] \<and>
   exhaust True
     (read_smi [''CCO'' @ [TAB] @ ''ethanol'' @ [NL], ''CCN'' @ [NL],
                 ''c1ccccc1 benzene'' @ [NL], ''CCC propane extra'' @ [NL], ''C''] None 3 (Some 2)) =
     Inl RuntimeError"
  by (simp add: eval_defs exhaust_def)


text \<open>
  Claim C10.  Under the default whitespace separator a line of the window that is empty
  after stripping makes the reader raise \<open>IndexError\<close>: the split gives no field and the
  first one is indexed.  With \<open>k\<close> the index of the first such line of the window, the reader
  yields the records of the window's lines before it and raises there; the blank line is
  neither skipped nor yielded.
\<close>

theorem blank_line_raises_index_error:
  assumes "1 \<le> p" and "p - 1 \<le> k" and "k < length f"
    and "case l of None \<Rightarrow> True | Some n \<Rightarrow> k < p - 1 + n"
    and "strip (f ! k) = []"
    and "\<forall>j. p - 1 \<le> j \<and> j < k \<longrightarrow> strip (f ! j) \<noteq> []"
  shows "line_items None (f ! k) = Inl IndexError \<and>
         map Inr (fst (read_smi f None (int p) (map_option int l))) =
           map (line_items None) (take (k - (p - 1)) (drop (p - 1) f)) \<and>
         snd (read_smi f None (int p) (map_option int l)) = Some IndexError \<and>
         exhaust stop (read_smi f None (int p) (map_option int l)) = Inl IndexError"
proof -
  let ?s = "int (p - 1)" and ?e = "map_option (\<lambda>n. int (p - 1) + int n) l"
  let ?d = "drop (p - 1) f"
  let ?ws = "take (k - (p - 1)) ?d" and ?rest = "drop (Suc (k - (p - 1))) ?d"
  let ?g = "read_smi f None (int p) (map_option int l)"
  have blank: "line_items None (f ! k) = Inl IndexError"
    using assms(5) by (rule line_items_blank)
  have m: "min (p - 1) (length f) = p - 1" using assms(2,3) by simp
  have skip: "?g = read_loop None ?s ?e (p - 1) ?d"
    using read_smi_skip [OF assms(1), of f None l] m by simp
  have kd: "k - (p - 1) < length ?d" using assms(2,3) by simp
  have nth: "?d ! (k - (p - 1)) = f ! k" using assms(2,3) by simp
  have split: "?d = ?ws @ f ! k # ?rest"
    using id_take_nth_drop [OF kd] nth by simp
  have lw: "length ?ws = k - (p - 1)" using kd by simp
  have be_k: "before_end k ?e"
    using assms(4) by (auto simp: before_end_def split: option.splits)
  have idx: "p - 1 + length ?ws = k" using lw assms(2) by linarith
  have be: "?ws \<noteq> [] \<longrightarrow> before_end (p - 1 + length ?ws - 1) ?e"
  proof
    assume "?ws \<noteq> []"
    have "p - 1 + length ?ws - 1 \<le> k" using idx by linarith
    with be_k show "before_end (p - 1 + length ?ws - 1) ?e"
      by (rule before_end_mono)
  qed
  have ok: "\<forall>w\<in>set ?ws. \<exists>r. line_items None w = Inr r"
  proof
    fix w assume "w \<in> set ?ws"
    then obtain j where j: "j < length ?ws" and w: "w = ?ws ! j"
      by (auto simp: in_set_conv_nth)
    from j lw have jk: "j < k - (p - 1)" by simp
    then have "w = f ! (p - 1 + j)" using w assms(2,3) by simp
    moreover have "strip (f ! (p - 1 + j)) \<noteq> []" using assms(6) jk by simp
    ultimately have "(None :: string option) = None \<longrightarrow> strip w \<noteq> []" by simp
    moreover have "(None :: string option) \<noteq> Some []" by simp
    ultimately show "\<exists>r. line_items None w = Inr r" by (rule line_items_ok [rotated])
  qed
  have sk: "?s \<le> int k" using assms(2) by simp
  have tail: "read_loop None ?s ?e (p - 1 + length ?ws) (f ! k # ?rest) = ([], Some IndexError)"
    unfolding idx using sk be_k blank by (rule read_loop_raise)
  have "?s \<le> int (p - 1)" by simp
  then have win: "map Inr (fst (read_loop None ?s ?e (p - 1) (?ws @ f ! k # ?rest))) =
       map (line_items None) ?ws @
         map Inr (fst (read_loop None ?s ?e (p - 1 + length ?ws) (f ! k # ?rest))) \<and>
     snd (read_loop None ?s ?e (p - 1) (?ws @ f ! k # ?rest)) =
       snd (read_loop None ?s ?e (p - 1 + length ?ws) (f ! k # ?rest))"
    using be ok by (rule read_loop_window)
  have r1: "map Inr (fst ?g) = map (line_items None) ?ws"
    using win [THEN conjunct1]
    by (simp only: tail split [symmetric] skip fst_conv list.map append_Nil2)
  have r2: "snd ?g = Some IndexError"
    using win [THEN conjunct2]
    by (simp only: tail split [symmetric] skip snd_conv)
  from r2 have "exhaust stop ?g = Inl IndexError" by (simp add: exhaust_def)
  with blank r1 r2 show ?thesis by simp
qed

theorem blank_line_raises_index_error_witness:
  "read_smi [''CCO'' @ [NL], [NL], ''CCN'' @ [NL]] None 1 None = ([(''CCO'', ''CCO'')], Some IndexError)"
proof -
  let ?f = "[''CCO'' @ [NL], [NL], ''CCN'' @ [NL]]"
  let ?g = "read_smi ?f None (int 1) (map_option int None)"
  have h1: "1 \<le> (1::nat)" by simp
  have h2: "(1::nat) - 1 \<le> 1" by simp
  have h3: "1 < length ?f" by simp
  have h4: "case (None :: nat option) of None \<Rightarrow> True | Some n \<Rightarrow> 1 < (1::nat) - 1 + n" by simp
  have h5: "strip (?f ! 1) = []" by (simp add: eval_defs)
  have h6: "\<forall>j. (1::nat) - 1 \<le> j \<and> j < 1 \<longrightarrow> strip (?f ! j) \<noteq> []" by (simp add: eval_defs)
  note t = blank_line_raises_index_error [OF h1 h2 h3 h4 h5 h6, of False]
  have a: "map Inr (fst ?g) = map (line_items None) (take (1 - (1 - 1)) (drop (1 - 1) ?f))"
    by (rule t [THEN conjunct2, THEN conjunct1])
  have b: "snd ?g = Some IndexError"
    by (rule t [THEN conjunct2, THEN conjunct2, THEN conjunct1])
  have c: "map (line_items None) (take (1 - (1 - 1)) (drop (1 - 1) ?f)) = map Inr [(''CCO'', ''CCO'')]"
    by (simp add: eval_defs)
  have "fst ?g = [(''CCO'', ''CCO'')]"
    by (rule map_Inr_eq [where 'a = error]) (simp only: a c)
  with b have "?g = ([(''CCO'', ''CCO'')], Some IndexError)" by (simp add: prod_eq_iff)
  moreover have "?g = read_smi ?f None 1 None" by simp
  ultimately show ?thesis by simp
qed

lemma line_items_cases:
  "line_items sep line =
     (case split sep (strip line) of
        Inl e \<Rightarrow> Inl e
      | Inr items \<Rightarrow>
          if items = [] then Inl IndexError
          else if length items = 1 then Inr (items ! 0, items ! 0)
          else Inr (items ! 0, items ! 1))"
proof (cases "split sep (strip line)")
  case (Inl e)
  then show ?thesis by (simp add: line_items_def)
next
  case (Inr items)
  show ?thesis
  proof (cases items)
    case Nil
    with Inr show ?thesis by (simp add: line_items_def getitem_def)
  next
    case (Cons a rest)
    with Inr show ?thesis by (cases rest) (simp_all add: line_items_def getitem_def)
  qed
qed

lemma read_smi_single:
  "read_smi [line] sep 1 None =
     (case line_items sep line of Inl e \<Rightarrow> ([], Some e) | Inr r \<Rightarrow> ([r], None))"
  by (simp add: read_smi_def before_end_def yield_def split: sum.splits)

lemma calc_mp_roles:
  "calc_mp tk fl r err = calc tk fl (structure_of r) (identifier_of r) err"
  by (simp add: calc_mp_def structure_of_def identifier_of_def)

lemma read_loop_start_nonpos:
  "s \<le> 0 \<Longrightarrow> read_loop sep s e i ls = read_loop sep 0 e i ls"
  by (induction ls arbitrary: i) (auto split: sum.splits)

lemma read_smi_default_start:
  "read_smi f sep 0 (Some n) = read_smi f sep 1 (Some (n - 1))"
proof -
  have "read_loop sep (- 1) (Some (n - 1)) 0 f = read_loop sep 0 (Some (n - 1)) 0 f"
    by (rule read_loop_start_nonpos) simp
  then show ?thesis by (simp add: read_smi_def)
qed

lemma strip_affix:
  assumes "\<forall>c\<in>set a. isspace c" and "\<forall>c\<in>set b. isspace c"
    and "s = [] \<or> (\<not> isspace (hd s) \<and> \<not> isspace (last s))"
  shows "strip (a @ s @ b) = s"
proof (cases "s = []")
  case True
  from assms(1,2) have "\<forall>c\<in>set (a @ b). isspace c" by auto
  then have d: "dropWhile isspace (a @ b) = []" by (simp only: dropWhile_eq_Nil_conv)
  have "strip (a @ b) = []" unfolding strip_def d by simp
  with True show ?thesis by simp
next
  case False
  with assms(3) have h: "\<not> isspace (hd s)" and l: "\<not> isspace (last s)" by simp_all
  obtain c r where s: "s = c # r" using False by (cases s) auto
  with h have c: "\<not> isspace c" by simp
  have "dropWhile isspace (a @ s @ b) = dropWhile isspace (s @ b)"
    using assms(1) by (intro dropWhile_append2) simp
  with s c have d1: "dropWhile isspace (a @ s @ b) = s @ b" by simp
  obtain c' r' where rs: "rev s = c' # r'" using False by (cases "rev s") auto
  then have "c' = hd (rev s)" by simp
  also have "\<dots> = last s" using False by (simp add: hd_rev)
  finally have c': "\<not> isspace c'" using l by simp
  have "dropWhile isspace (rev b @ rev s) = dropWhile isspace (rev s)"
    using assms(2) by (intro dropWhile_append2) simp
  with rs c' have d2: "dropWhile isspace (rev b @ rev s) = rev s" by simp
  show ?thesis by (simp add: strip_def d1 d2)
qed

text \<open>
  Claim C7.  The reader strips every line of the window and splits it on the separator:
  leading and trailing whitespace, the newline that ends the line included, do not reach
  the fields.  The pair it yields has the first field as the structure and, for a line of
  one field, the same field again, otherwise the second field, as the identifier.  The line
  \<open>CCO<TAB>ethanol\<close> yields the identifier \<open>ethanol\<close> and the structure \<open>CCO\<close>, the line \<open>CCO\<close>
  yields \<open>CCO\<close> as both, under the default separator and under the tab separator, with and
  without whitespace around them.
\<close>

theorem reader_strips_and_splits:
  "read_smi [line] sep 1 None =
     (case line_items sep line of Inl e \<Rightarrow> ([], Some e) | Inr r \<Rightarrow> ([r], None)) \<and>
   line_items sep line =
     (case split sep (strip line) of
        Inl e \<Rightarrow> Inl e
      | Inr items \<Rightarrow>
          if items = [] then Inl IndexError
          else if length items = 1 then Inr (items ! 0, items ! 0)
          else Inr (items ! 0, items ! 1)) \<and>
   ((\<forall>c\<in>set a. isspace c) \<and> (\<forall>c\<in>set b. isspace c) \<and>
    (s = [] \<or> \<not> isspace (hd s) \<and> \<not> isspace (last s)) \<longrightarrow>
      strip (a @ s @ b) = s \<and> line_items sep (a @ s @ b) = line_items sep s) \<and>
   calc_mp tk fl r err = calc tk fl (structure_of r) (identifier_of r) err \<and>
   line_items None (''CCO'' @ [TAB] @ ''ethanol'') = Inr (''CCO'', ''ethanol'') \<and>
   line_items (Some [TAB]) (''CCO'' @ [TAB] @ ''ethanol'') = Inr (''CCO'', ''ethanol'') \<and>
   line_items None (''CCO'' @ [TAB] @ ''ethanol'' @ [NL]) = Inr (''CCO'', ''ethanol'') \<and>
   line_items (Some [TAB]) (''CCO'' @ [TAB] @ ''ethanol'' @ [NL]) = Inr (''CCO'', ''ethanol'') \<and>
   line_items (Some [TAB]) (''  CCO'' @ [TAB] @ ''ethanol  '' @ [NL]) =
     Inr (''CCO'', ''ethanol'') \<and>
   line_items (Some [TAB]) (''CCO'' @ [TAB] @ ''ethyl alcohol'' @ [NL]) =
     Inr (''CCO'', ''ethyl alcohol'') \<and>
   line_items None (''CCO'' @ [TAB] @ ''ethyl alcohol'' @ [NL]) = Inr (''CCO'', ''ethyl'') \<and>
   line_items (Some '','') (''CCO,ethanol'' @ [NL]) = Inr (''CCO'', ''ethanol'') \<and>
   structure_of (''CCO'', ''ethanol'') = ''CCO'' \<and>
   identifier_of (''CCO'', ''ethanol'') = ''ethanol'' \<and>
   line_items None ''CCO'' = Inr (''CCO'', ''CCO'') \<and>
   line_items (Some [TAB]) ''CCO'' = Inr (''CCO'', ''CCO'') \<and>
   line_items None (''CCO'' @ [NL]) = Inr (''CCO'', ''CCO'') \<and>
   line_items (Some [TAB]) ('' CCO '' @ [NL]) = Inr (''CCO'', ''CCO'') \<and>
   structure_of (''CCO'', ''CCO'') = ''CCO'' \<and>
   identifier_of (''CCO'', ''CCO'') = ''CCO''"
proof -
  have ex: "line_items None (''CCO'' @ [TAB] @ ''ethanol'') = Inr (''CCO'', ''ethanol'')"
    "line_items (Some [TAB]) (''CCO'' @ [TAB] @ ''ethanol'') = Inr (''CCO'', ''ethanol'')"
    "line_items None (''CCO'' @ [TAB] @ ''ethanol'' @ [NL]) = Inr (''CCO'', ''ethanol'')"
    "line_items (Some [TAB]) (''CCO'' @ [TAB] @ ''ethanol'' @ [NL]) = Inr (''CCO'', ''ethanol'')"
    "line_items (Some [TAB]) (''  CCO'' @ [TAB] @ ''ethanol  '' @ [NL]) =
       Inr (''CCO'', ''ethanol'')"
    "line_items (Some [TAB]) (''CCO'' @ [TAB] @ ''ethyl alcohol'' @ [NL]) =
       Inr (''CCO'', ''ethyl alcohol'')"
    "line_items None (''CCO'' @ [TAB] @ ''ethyl alcohol'' @ [NL]) = Inr (''CCO'', ''ethyl'')"
    "line_items (Some '','') (''CCO,ethanol'' @ [NL]) = Inr (''CCO'', ''ethanol'')"
    "line_items None ''CCO'' = Inr (''CCO'', ''CCO'')"
    "line_items (Some [TAB]) ''CCO'' = Inr (''CCO'', ''CCO'')"
    "line_items None (''CCO'' @ [NL]) = Inr (''CCO'', ''CCO'')"
    "line_items (Some [TAB]) ('' CCO '' @ [NL]) = Inr (''CCO'', ''CCO'')"
    by (simp_all add: line_items_def split_def split_ws_def strip_def isspace_def
          whitespace_def getitem_def TAB_def NL_def)
  have roles: "structure_of (''CCO'', ''ethanol'') = ''CCO''"
    "identifier_of (''CCO'', ''ethanol'') = ''ethanol''"
    "structure_of (''CCO'', ''CCO'') = ''CCO''"
    "identifier_of (''CCO'', ''CCO'') = ''CCO''"
    by (simp_all add: structure_of_def identifier_of_def)
  have affix: "(\<forall>c\<in>set a. isspace c) \<and> (\<forall>c\<in>set b. isspace c) \<and>
      (s = [] \<or> \<not> isspace (hd s) \<and> \<not> isspace (last s)) \<longrightarrow>
      strip (a @ s @ b) = s \<and> line_items sep (a @ s @ b) = line_items sep s"
  proof
    assume h: "(\<forall>c\<in>set a. isspace c) \<and> (\<forall>c\<in>set b. isspace c) \<and>
      (s = [] \<or> \<not> isspace (hd s) \<and> \<not> isspace (last s))"
    then have 1: "strip (a @ s @ b) = s" by (simp add: strip_affix)
    from h have "strip ([] @ s @ []) = s" by (intro strip_affix) simp_all
    then have 2: "strip s = s" by simp
    from 1 2 show "strip (a @ s @ b) = s \<and> line_items sep (a @ s @ b) = line_items sep s"
      by (simp add: line_items_def)
  qed
  show ?thesis
    using read_smi_single [of line sep] line_items_cases [of sep line] affix
      calc_mp_roles [of tk fl r err] ex roles
    by (intro conjI)
qed

theorem reader_strips_and_splits_witness:
  "strip (''  '' @ (''CCO'' @ [TAB] @ ''ethanol'') @ ('' '' @ [NL])) = ''CCO'' @ [TAB] @ ''ethanol'' \<and>
   line_items (Some [TAB]) (''  '' @ (''CCO'' @ [TAB] @ ''ethanol'') @ ('' '' @ [NL])) =
     Inr (''CCO'', ''ethanol'')"
proof -
  let ?a = "''  ''" and ?s = "''CCO'' @ [TAB] @ ''ethanol''" and ?b = "'' '' @ [NL]"
  have h: "(\<forall>c\<in>set ?a. isspace c) \<and> (\<forall>c\<in>set ?b. isspace c) \<and>
      (?s = [] \<or> \<not> isspace (hd ?s) \<and> \<not> isspace (last ?s))"
    by (simp add: isspace_def whitespace_def NL_def TAB_def)
  note t = reader_strips_and_splits [of _ "Some [TAB]" ?a ?b ?s]
  have i: "strip (?a @ ?s @ ?b) = ?s \<and>
           line_items (Some [TAB]) (?a @ ?s @ ?b) = line_items (Some [TAB]) ?s"
    by (rule t [THEN conjunct2, THEN conjunct2, THEN conjunct1, rule_format, OF h])
  have e: "line_items (Some [TAB]) ?s = Inr (''CCO'', ''ethanol'')"
    by (rule t [THEN conjunct2, THEN conjunct2, THEN conjunct2, THEN conjunct2,
          THEN conjunct2, THEN conjunct1])
  from i e show ?thesis by (simp only:)
qed

text \<open>
  Claim C8, amended.  For a line of two or more fields the reader yields the first field as
  the structure notation and the second field as the identifier: these are the strings
  \<open>calc\<close> receives as \<open>smi\<close> and \<open>name\<close>.
\<close>

theorem two_fields_structure_then_identifier:
  assumes "split sep (strip line) = Inr items" and "2 \<le> length items"
  shows "\<exists>r. line_items sep line = Inr r \<and>
              structure_of r = items ! 0 \<and> identifier_of r = items ! 1 \<and>
              calc_mp tk fl r err = calc tk fl (items ! 0) (items ! 1) err"
proof -
  from assms(2) have "items \<noteq> []" and "length items \<noteq> 1" by auto
  with assms(1) have "line_items sep line = Inr (items ! 0, items ! 1)"
    by (simp add: line_items_cases)
  then show ?thesis
    by (simp add: structure_of_def identifier_of_def calc_mp_def)
qed

theorem two_fields_structure_then_identifier_witness:
  "split None (strip (''CCO'' @ [TAB] @ ''ethanol'' @ [NL])) = Inr [''CCO'', ''ethanol''] \<and>
   (\<exists>r. line_items None (''CCO'' @ [TAB] @ ''ethanol'' @ [NL]) = Inr r \<and>
        structure_of r = ''CCO'' \<and> identifier_of r = ''ethanol'' \<and>
        calc_mp sample_toolkit sample_floats r [] =
          calc sample_toolkit sample_floats ''CCO'' ''ethanol'' [])"
proof -
  have h1: "split None (strip (''CCO'' @ [TAB] @ ''ethanol'' @ [NL])) = Inr [''CCO'', ''ethanol'']"
    by (simp add: split_def split_ws_def strip_def isspace_def whitespace_def TAB_def NL_def)
  have h2: "2 \<le> length [''CCO'', ''ethanol'']" by simp
  from two_fields_structure_then_identifier [OF h1 h2, of sample_toolkit sample_floats "[]"] h1
  show ?thesis by simp
qed

text \<open>
  Claim C8 as stated, the first field as the identifier and the second as the structure,
  fails on the line \<open>CCO<TAB>ethanol\<close>: its identifier is not the first field \<open>CCO\<close> and its
  structure is not the second field \<open>ethanol\<close>.
\<close>

theorem first_field_identifier_counterexample:
  "split None (strip (''CCO'' @ [TAB] @ ''ethanol'' @ [NL])) = Inr [''CCO'', ''ethanol''] \<and>
   line_items None (''CCO'' @ [TAB] @ ''ethanol'' @ [NL]) = Inr (''CCO'', ''ethanol'') \<and>
   identifier_of (''CCO'', ''ethanol'') \<noteq> ''CCO'' \<and>
   structure_of (''CCO'', ''ethanol'') \<noteq> ''ethanol''"
  by (simp add: line_items_def getitem_def split_def split_ws_def strip_def isspace_def
        whitespace_def TAB_def NL_def structure_of_def identifier_of_def)

text \<open>
  Claim C9 against the code.  Without \<open>--startpos\<close> the start position is 0, not 1, and
  with a count \<open>n\<close> the window then is that of start line 1 with the count \<open>n - 1\<close>: on a file
  of three lines and a count of 2 the reader yields the first line only, where the start
  line 1 yields the first two.
\<close>

theorem default_startpos_window:
  "read_smi f sep (opt_start_pos (a\<lparr>arg_startpos := None\<rparr>)) (Some n) =
     read_smi f sep (opt_start_pos (a\<lparr>arg_startpos := Some 1\<rparr>)) (Some (n - 1)) \<and>
   opt_start_pos \<lparr>arg_sep = None, arg_startpos = None, arg_lines = Some 2,
                  arg_ncpu = None, arg_verbose = False\<rparr> = 0 \<and>
   read_smi [''CCO'' @ [NL], ''CCN'' @ [NL], ''CCC'' @ [NL]] None
     (opt_start_pos \<lparr>arg_sep = None, arg_startpos = None, arg_lines = Some 2,
                     arg_ncpu = None, arg_verbose = False\<rparr>) (Some 2) =
     ([(''CCO'', ''CCO'')], Some StopIteration) \<and>
   read_smi [''CCO'' @ [NL], ''CCN'' @ [NL], ''CCC'' @ [NL]] None
     (opt_start_pos \<lparr>arg_sep = None, arg_startpos = Some 1, arg_lines = Some 2,
                     arg_ncpu = None, arg_verbose = False\<rparr>) (Some 2) =
     ([(''CCO'', ''CCO''), (''CCN'', ''CCN'')], Some StopIteration)"
proof -
  have "read_smi f sep (opt_start_pos (a\<lparr>arg_startpos := None\<rparr>)) (Some n) =
     read_smi f sep (opt_start_pos (a\<lparr>arg_startpos := Some 1\<rparr>)) (Some (n - 1))"
    using read_smi_default_start [of f sep n] by (simp add: opt_start_pos_def)
  then show ?thesis
    by (simp add: opt_start_pos_def read_smi_def before_end_def line_items_def split_def
          split_ws_def strip_def isspace_def whitespace_def getitem_def yield_def NL_def)
qed

subsection \<open>The calculator\<close>

lemma calc_unparsed:
  "MolFromSmiles tk smi = None \<Longrightarrow>
     calc tk fl smi name err = (Inr None, err @ [parse_error_message smi name])"
  by (simp add: calc_def)

lemma calc_no_heavy_atoms:
  "MolFromSmiles tk smi = Some m \<Longrightarrow> GetNumHeavyAtoms tk m = 0 \<Longrightarrow>
     calc tk fl smi name err = (Inl ZeroDivisionError, err)"
  by (simp add: calc_def truediv_def Let_def split: prod.splits)

lemma calc_parsed:
  assumes "MolFromSmiles tk smi = Some m" and "GetNumHeavyAtoms tk m \<noteq> 0"
  shows "calc tk fl smi name err =
     (Inr (Some [PyStr name,
                 PyInt (int (CalcNumHBA tk m)),
                 PyInt (int (CalcNumHBD tk m)),
                 PyInt (int (CalcNumHBA tk m + CalcNumHBD tk m)),
                 PyInt (int (CalcNumRings tk m)),
                 PyInt (int (CalcNumRotatableBonds tk m)),
                 PyFloat (round_to fl (CalcTPSA tk m) 2),
                 PyFloat (round_to fl (fst (CalcCrippenDescriptors tk m)) 2),
                 PyFloat (round_to fl (snd (CalcCrippenDescriptors tk m)) 2),
                 PyFloat (round_to fl (CalcMolWt tk m) 2),
                 PyFloat (round_to fl (CalcFractionCSP3 tk m) 3),
                 PyFloat (round_to fl (quotient fl (GetNumHeavyAtoms tk (GetScaffoldForMol tk m))
                                         (GetNumHeavyAtoms tk m)) 3),
                 PyFloat (round_to fl (qed_score tk m) 3)]), err)"
  using assms by (simp add: calc_def truediv_def Let_def split: prod.splits)

lemmas sample_defs = sample_toolkit_def sample_parse_def sample_floats_def

text \<open>
  Claim C1, amended.  For every structure string that the toolkit parses to a molecule with
  at least one heavy atom, \<open>calc\<close> returns the identifier followed by exactly twelve values in
  the order HBA, HBD, HBA + HBD, ring count, rotatable bonds, TPSA, logP, MR, MW, fraction
  of sp3 carbons, fraction in the scaffold, QED, where TPSA, logP, MR and MW went through
  \<open>round(x, 2)\<close> and the three fractions through \<open>round(x, 3)\<close>; the error stream is unchanged.
\<close>

theorem calc_descriptor_record:
  assumes "MolFromSmiles tk smi = Some m" and "GetNumHeavyAtoms tk m \<noteq> 0"
  shows "calc tk fl smi name err =
     (Inr (Some [PyStr name,
                 PyInt (int (CalcNumHBA tk m)),
                 PyInt (int (CalcNumHBD tk m)),
                 PyInt (int (CalcNumHBA tk m + CalcNumHBD tk m)),
                 PyInt (int (CalcNumRings tk m)),
                 PyInt (int (CalcNumRotatableBonds tk m)),
                 PyFloat (round_to fl (CalcTPSA tk m) 2),
                 PyFloat (round_to fl (fst (CalcCrippenDescriptors tk m)) 2),
                 PyFloat (round_to fl (snd (CalcCrippenDescriptors tk m)) 2),
                 PyFloat (round_to fl (CalcMolWt tk m) 2),
                 PyFloat (round_to fl (CalcFractionCSP3 tk m) 3),
                 PyFloat (round_to fl (quotient fl (GetNumHeavyAtoms tk (GetScaffoldForMol tk m))
                                         (GetNumHeavyAtoms tk m)) 3),
                 PyFloat (round_to fl (qed_score tk m) 3)]), err)"
  using assms by (rule calc_parsed)

theorem calc_descriptor_record_witness:
  "MolFromSmiles sample_toolkit ''c1ccccc1'' = Some Benzene \<and>
   GetNumHeavyAtoms sample_toolkit Benzene \<noteq> 0 \<and>
   calc sample_toolkit sample_floats ''c1ccccc1'' ''benzene'' [] =
     (Inr (Some [PyStr ''benzene'', PyInt 0, PyInt 0, PyInt 0, PyInt 1, PyInt 0,
                 PyFloat (sample_round (double 0) 2),
                 PyFloat (sample_round (double (16866 / 10000)) 2),
                 PyFloat (sample_round (double (26442 / 1000)) 2),
                 PyFloat (sample_round (double (78114 / 1000)) 2),
                 PyFloat (sample_round (double 0) 3),
                 PyFloat (sample_round (double (6 / 6)) 3),
                 PyFloat (sample_round (double (44263 / 100000)) 3)]), [])"
proof -
  have h1: "MolFromSmiles sample_toolkit ''c1ccccc1'' = Some Benzene"
    by (simp add: sample_defs)
  have h2: "GetNumHeavyAtoms sample_toolkit Benzene \<noteq> 0"
    by (simp add: sample_defs)
  from calc_descriptor_record [OF h1 h2, of sample_floats "''benzene''" "[]"] h1 h2
  show ?thesis by (simp add: sample_defs)
qed

text \<open>
  Claim C1 as stated, for every string that parses, fails for a molecule without heavy
  atoms: the string parses and \<open>calc\<close> raises \<open>ZeroDivisionError\<close> instead of returning a
  record.
\<close>

theorem calc_no_heavy_atoms_counterexample:
  "MolFromSmiles sample_toolkit ''[H+]'' = Some Proton \<and>
   calc sample_toolkit sample_floats ''[H+]'' ''proton'' [] = (Inl ZeroDivisionError, [])"
  by (simp add: sample_defs calc_def truediv_def)

text \<open>
  Claim C4.  For a parsed molecule with zero heavy atoms the division of the scaffold's
  heavy-atom count by the molecule's raises \<open>ZeroDivisionError\<close>, which \<open>calc\<close> does not
  handle.  For a parsed molecule with at least one heavy atom the division raises nothing, the
  fraction is the quotient of the two counts, and \<open>calc\<close> returns it, rounded to three
  places, as the twelfth value after the identifier.
\<close>

theorem scaffold_fraction_division:
  "(MolFromSmiles tk smi0 = Some m0 \<and> GetNumHeavyAtoms tk m0 = 0 \<longrightarrow>
      truediv fl (GetNumHeavyAtoms tk (GetScaffoldForMol tk m0)) (GetNumHeavyAtoms tk m0) =
        Inl ZeroDivisionError \<and>
      calc tk fl smi0 name0 err = (Inl ZeroDivisionError, err)) \<and>
   (MolFromSmiles tk smi = Some m \<and> 0 < GetNumHeavyAtoms tk m \<longrightarrow>
      truediv fl (GetNumHeavyAtoms tk (GetScaffoldForMol tk m)) (GetNumHeavyAtoms tk m) =
        Inr (quotient fl (GetNumHeavyAtoms tk (GetScaffoldForMol tk m)) (GetNumHeavyAtoms tk m)) \<and>
      (\<exists>t. calc tk fl smi name err = (Inr (Some t), err) \<and> length t = 13 \<and>
           t ! 11 = PyFloat (round_to fl
                      (quotient fl (GetNumHeavyAtoms tk (GetScaffoldForMol tk m))
                         (GetNumHeavyAtoms tk m)) 3)))"
proof (intro conjI impI)
  assume a: "MolFromSmiles tk smi0 = Some m0 \<and> GetNumHeavyAtoms tk m0 = 0"
  then show "truediv fl (GetNumHeavyAtoms tk (GetScaffoldForMol tk m0)) (GetNumHeavyAtoms tk m0) =
        Inl ZeroDivisionError" by (simp add: truediv_def)
  from a show "calc tk fl smi0 name0 err = (Inl ZeroDivisionError, err)"
    by (simp add: calc_no_heavy_atoms)
next
  assume a: "MolFromSmiles tk smi = Some m \<and> 0 < GetNumHeavyAtoms tk m"
  then show "truediv fl (GetNumHeavyAtoms tk (GetScaffoldForMol tk m)) (GetNumHeavyAtoms tk m) =
        Inr (quotient fl (GetNumHeavyAtoms tk (GetScaffoldForMol tk m)) (GetNumHeavyAtoms tk m))"
    by (simp add: truediv_def)
  from a have p: "MolFromSmiles tk smi = Some m" and h: "GetNumHeavyAtoms tk m \<noteq> 0" by simp_all
  show "\<exists>t. calc tk fl smi name err = (Inr (Some t), err) \<and> length t = 13 \<and>
           t ! 11 = PyFloat (round_to fl
                      (quotient fl (GetNumHeavyAtoms tk (GetScaffoldForMol tk m))
                         (GetNumHeavyAtoms tk m)) 3)"
    by (simp add: calc_parsed [OF p h])
qed

theorem scaffold_fraction_division_witness:
  "MolFromSmiles sample_toolkit [] = Some NoAtoms \<and>
   GetNumHeavyAtoms sample_toolkit NoAtoms = 0 \<and>
   calc sample_toolkit sample_floats [] ''empty'' [] = (Inl ZeroDivisionError, []) \<and>
   MolFromSmiles sample_toolkit ''CCO'' = Some Ethanol \<and>
   0 < GetNumHeavyAtoms sample_toolkit Ethanol \<and>
   truediv sample_floats (GetNumHeavyAtoms sample_toolkit (GetScaffoldForMol sample_toolkit Ethanol))
     (GetNumHeavyAtoms sample_toolkit Ethanol) = Inr (double (0 / 3)) \<and>
   (\<exists>t. calc sample_toolkit sample_floats ''CCO'' ''ethanol'' [] = (Inr (Some t), []) \<and>
        length t = 13 \<and> t ! 11 = PyFloat (sample_round (double (0 / 3)) 3))"
proof -
  have h1: "MolFromSmiles sample_toolkit [] = Some NoAtoms \<and>
            GetNumHeavyAtoms sample_toolkit NoAtoms = 0"
    by (simp add: sample_defs)
  have h2: "MolFromSmiles sample_toolkit ''CCO'' = Some Ethanol \<and>
            0 < GetNumHeavyAtoms sample_toolkit Ethanol"
    by (simp add: sample_defs)
  note t = scaffold_fraction_division [of sample_toolkit "[]" NoAtoms sample_floats
      "''empty''" "[]" "''CCO''" Ethanol "''ethanol''"]
  from t [THEN conjunct1, rule_format, OF h1] t [THEN conjunct2, rule_format, OF h2] h1 h2
  show ?thesis by (simp add: sample_defs)
qed

text \<open>
  Claim C3, amended.  For a structure string the toolkit cannot parse, \<open>calc\<close> returns
  \<open>None\<close> and writes exactly one message to the error stream, which contains the structure
  string and the identifier.  The batch goes on: the map over a batch that starts with such
  a record is the map over the remaining records, with \<open>None\<close> put in front of their results,
  and the writing loop passes over \<open>None\<close> to the next result without writing a row.
\<close>

theorem calc_parse_failure:
  assumes "MolFromSmiles tk smi = None"
  shows "calc tk fl smi name err =
           (Inr None, err @ [''smiles '' @ smi @ '' cannot be parsed ('' @ name @ '')'']) \<and>
         imap (calc_mp tk fl) ((smi, name) # rest) err =
           (case imap (calc_mp tk fl) rest (err @ [parse_error_message smi name]) of
              (Inl e, s) \<Rightarrow> (Inl e, s)
            | (Inr ys, s) \<Rightarrow> (Inr (None # ys), s)) \<and>
         write_loop fl verbose i (None # results) st =
           write_loop fl verbose (Suc i) results
             (fst st, if verbose \<and> (i + 1) mod 1000 = 0 then snd st @ [progress_message (i + 1)]
                      else snd st)"
proof -
  have c: "calc tk fl smi name err = (Inr None, err @ [parse_error_message smi name])"
    using assms by (rule calc_unparsed)
  then have "imap (calc_mp tk fl) ((smi, name) # rest) err =
           (case imap (calc_mp tk fl) rest (err @ [parse_error_message smi name]) of
              (Inl e, s) \<Rightarrow> (Inl e, s)
            | (Inr ys, s) \<Rightarrow> (Inr (None # ys), s))"
    by (simp add: calc_mp_def)
  moreover have "write_loop fl verbose i (None # results) st =
           write_loop fl verbose (Suc i) results
             (fst st, if verbose \<and> (i + 1) mod 1000 = 0 then snd st @ [progress_message (i + 1)]
                      else snd st)"
    by (simp add: Let_def)
  ultimately show ?thesis using c by (simp add: parse_error_message_def)
qed

theorem calc_parse_failure_witness:
  "MolFromSmiles sample_toolkit ''C1CC'' = None \<and>
   calc sample_toolkit sample_floats ''C1CC'' ''ring'' [] =
     (Inr None, [''smiles C1CC cannot be parsed (ring)'']) \<and>
   (\<exists>t. imap (calc_mp sample_toolkit sample_floats) [(''C1CC'', ''ring''), (''CCO'', ''ethanol'')] [] =
        (Inr [None, Some t], [''smiles C1CC cannot be parsed (ring)'']))"
proof -
  have h: "MolFromSmiles sample_toolkit ''C1CC'' = None" by (simp add: sample_defs)
  have p: "MolFromSmiles sample_toolkit ''CCO'' = Some Ethanol"
    and q: "GetNumHeavyAtoms sample_toolkit Ethanol \<noteq> 0" by (simp_all add: sample_defs)
  have "\<exists>t. \<forall>err. calc sample_toolkit sample_floats ''CCO'' ''ethanol'' err = (Inr (Some t), err)"
    by (simp add: calc_parsed [OF p q])
  then obtain t where c: "\<And>err. calc sample_toolkit sample_floats ''CCO'' ''ethanol'' err =
      (Inr (Some t), err)" by blast
  have r: "imap (calc_mp sample_toolkit sample_floats) [(''CCO'', ''ethanol'')] err =
      (Inr [Some t], err)" for err
    by (simp add: calc_mp_def c)
  note w = calc_parse_failure [OF h, of sample_floats "''ring''" "[]" "[(''CCO'', ''ethanol'')]"]
  have a: "calc sample_toolkit sample_floats ''C1CC'' ''ring'' [] =
     (Inr None, [''smiles C1CC cannot be parsed (ring)''])"
    using w [THEN conjunct1] by simp
  have b: "imap (calc_mp sample_toolkit sample_floats) [(''C1CC'', ''ring''), (''CCO'', ''ethanol'')] [] =
        (Inr [None, Some t], [''smiles C1CC cannot be parsed (ring)''])"
    using w [THEN conjunct2, THEN conjunct1] by (simp add: r parse_error_message_def del: imap.simps)
  from h a b show ?thesis by blast
qed

text \<open>
  Claim C3 as stated, exactly one diagnostic line for every failure, fails: the message is
  written without a newline, so a second failure adds its message to the line of the first,
  and the error stream holds one line before it and one line after it.
\<close>

theorem parse_failure_line_counterexample:
  "calc sample_toolkit sample_floats ''C1CC'' ''again'' [''smiles C1CC cannot be parsed (ring)''] =
     (Inr None,
      [''smiles C1CC cannot be parsed (ring)'', ''smiles C1CC cannot be parsed (again)'']) \<and>
   text_lines (concat [''smiles C1CC cannot be parsed (ring)'']) =
     [''smiles C1CC cannot be parsed (ring)''] \<and>
   text_lines (concat [''smiles C1CC cannot be parsed (ring)'',
                       ''smiles C1CC cannot be parsed (again)'']) =
     [''smiles C1CC cannot be parsed (ring)smiles C1CC cannot be parsed (again)'']"
  by (simp add: calc_def sample_defs parse_error_message_def text_lines_def NL_def)

subsection \<open>The table written by a run\<close>









subsection \<open>The exception that ends a run\<close>

lemma read_smi_raises_after:
  assumes "\<forall>w\<in>set ws. \<exists>r. line_items sep w = Inr r" and "line_items sep bad = Inl e"
  shows "map Inr (fst (read_smi (ws @ bad # rest) sep 1 None)) = map (line_items sep) ws \<and>
         snd (read_smi (ws @ bad # rest) sep 1 None) = Some e"
proof -
  have be: "ws \<noteq> [] \<longrightarrow> before_end (0 + length ws - 1) None" by (simp add: before_end_def)
  have "(0::int) \<le> int 0" by simp
  then have w: "map Inr (fst (read_loop sep 0 None 0 (ws @ bad # rest))) =
       map (line_items sep) ws @ map Inr (fst (read_loop sep 0 None (0 + length ws) (bad # rest))) \<and>
     snd (read_loop sep 0 None 0 (ws @ bad # rest)) =
       snd (read_loop sep 0 None (0 + length ws) (bad # rest))"
    using be assms(1) by (rule read_loop_window)
  have "(0::int) \<le> int (0 + length ws)" by simp
  moreover have "before_end (0 + length ws) None" by (simp add: before_end_def)
  ultimately have t: "read_loop sep 0 None (0 + length ws) (bad # rest) = ([], Some e)"
    using assms(2) by (rule read_loop_raise)
  have "read_smi (ws @ bad # rest) sep 1 None = read_loop sep 0 None 0 (ws @ bad # rest)"
    by (simp add: read_smi_def)
  with w show ?thesis by (simp only: t fst_conv snd_conv list.map append_Nil2)
qed

lemma run_of_generated:
  assumes "read_smi f (arg_sep a) (opt_start_pos a) (arg_lines a) = g"
    and "\<not> min (opt_ncpu a) (cpu_count rt) < 1"
  shows "run rt tk fl a f =
     (case imap (calc_mp tk fl) (dispatched 100 (generator_stop rt) g) [] of
        (Inl e, diag) \<Rightarrow> Inl e
      | (Inr results, diag) \<Rightarrow>
          (case exhaust (generator_stop rt) g of
             Inl e \<Rightarrow> Inl e
           | Inr recs \<Rightarrow>
               (let st = write_loop fl (arg_verbose a) 0 results ([header_line], [])
                in Inr \<lparr>out_file = fst st, diagnostics = diag, progress = snd st\<rparr>)))"
  using assms by (simp add: run_def Let_def)

text \<open>
  A molecule without heavy atoms on the first line and a blank line after 98 or after 99
  further lines.  With the blank line as line 100 the reader raises before the first chunk
  of 100 records is complete, no record is handed out and the run ends with the reader's
  \<open>IndexError\<close>; with the blank line as line 101 the first chunk is handed out and the run
  ends with the \<open>ZeroDivisionError\<close> of its first record.
\<close>

lemma run_exception_order:
  "run sample_runtime sample_toolkit sample_floats
     \<lparr>arg_sep = None, arg_startpos = Some 1, arg_lines = None, arg_ncpu = None,
      arg_verbose = False\<rparr>
     ((''[H+]'' @ [NL]) # replicate 98 (''CCO'' @ [NL]) @ [[NL]]) = Inl IndexError \<and>
   run sample_runtime sample_toolkit sample_floats
     \<lparr>arg_sep = None, arg_startpos = Some 1, arg_lines = None, arg_ncpu = None,
      arg_verbose = False\<rparr>
     ((''[H+]'' @ [NL]) # replicate 99 (''CCO'' @ [NL]) @ [[NL]]) = Inl ZeroDivisionError"
proof -
  let ?a = "\<lparr>arg_sep = None, arg_startpos = Some 1, arg_lines = None, arg_ncpu = None,
      arg_verbose = False\<rparr>"
  have l0: "line_items None (''[H+]'' @ [NL]) = Inr (''[H+]'', ''[H+]'')"
    and l1: "line_items None (''CCO'' @ [NL]) = Inr (''CCO'', ''CCO'')"
    and lb: "line_items None [NL] = Inl IndexError"
    by (simp_all add: eval_defs)
  have u: "MolFromSmiles sample_toolkit ''[H+]'' = Some Proton"
    and v: "GetNumHeavyAtoms sample_toolkit Proton = 0"
    by (simp_all add: sample_defs)
  have first: "imap (calc_mp sample_toolkit sample_floats) ((''[H+]'', ''[H+]'') # rs) [] =
      (Inl ZeroDivisionError, [])" for rs
    by (simp add: calc_mp_def calc_no_heavy_atoms [OF u v])
  have reads: "fst (read_smi (((''[H+]'' @ [NL]) # replicate n (''CCO'' @ [NL])) @ [NL] # []) None 1 None) =
        (''[H+]'', ''[H+]'') # replicate n (''CCO'', ''CCO'') \<and>
      snd (read_smi (((''[H+]'' @ [NL]) # replicate n (''CCO'' @ [NL])) @ [NL] # []) None 1 None) =
        Some IndexError" for n
  proof -
    let ?ws = "(''[H+]'' @ [NL]) # replicate n (''CCO'' @ [NL])"
    have ok: "\<forall>w\<in>set ?ws. \<exists>r. line_items None w = Inr r"
      using l0 l1 by auto
    note r = read_smi_raises_after [OF ok lb, of "[]"]
    have "map (line_items None) ?ws =
        map Inr ((''[H+]'', ''[H+]'') # replicate n (''CCO'', ''CCO''))"
      using l0 l1 by simp
    with r [THEN conjunct1]
    have "map (Inr :: smi_record \<Rightarrow> error + smi_record)
            (fst (read_smi (?ws @ [NL] # []) None 1 None)) =
        map Inr ((''[H+]'', ''[H+]'') # replicate n (''CCO'', ''CCO''))"
      by (simp only:)
    then have "fst (read_smi (?ws @ [NL] # []) None 1 None) =
        (''[H+]'', ''[H+]'') # replicate n (''CCO'', ''CCO'')"
      by (rule map_Inr_eq [where 'a = error])
    with r [THEN conjunct2] show ?thesis by (simp only:)
  qed
  have g: "read_smi (((''[H+]'' @ [NL]) # replicate n (''CCO'' @ [NL])) @ [NL] # []) None 1 None =
      ((''[H+]'', ''[H+]'') # replicate n (''CCO'', ''CCO''), Some IndexError)" for n
    using reads [of n] by (simp add: prod_eq_iff)
  have f: "(''[H+]'' @ [NL]) # replicate n (''CCO'' @ [NL]) @ [[NL]] =
      ((''[H+]'' @ [NL]) # replicate n (''CCO'' @ [NL])) @ [NL] # []" for n
    by simp
  have sp: "opt_start_pos ?a = 1" and nc: "\<not> min (opt_ncpu ?a) (cpu_count sample_runtime) < 1"
    by (simp_all add: opt_start_pos_def opt_ncpu_def sample_runtime_def)
  have small: "run sample_runtime sample_toolkit sample_floats ?a
     ((''[H+]'' @ [NL]) # replicate 98 (''CCO'' @ [NL]) @ [[NL]]) = Inl IndexError"
  proof -
    have "read_smi ((''[H+]'' @ [NL]) # replicate 98 (''CCO'' @ [NL]) @ [[NL]])
            (arg_sep ?a) (opt_start_pos ?a) (arg_lines ?a) =
          ((''[H+]'', ''[H+]'') # replicate 98 (''CCO'', ''CCO''), Some IndexError)"
      unfolding sp f using g [of 98] by simp
    then show ?thesis using nc
      by (rule run_of_generated [THEN trans])
         (simp add: dispatched_def exhaust_def sample_runtime_def)
  qed
  have large: "run sample_runtime sample_toolkit sample_floats ?a
     ((''[H+]'' @ [NL]) # replicate 99 (''CCO'' @ [NL]) @ [[NL]]) = Inl ZeroDivisionError"
  proof -
    have "read_smi ((''[H+]'' @ [NL]) # replicate 99 (''CCO'' @ [NL]) @ [[NL]])
            (arg_sep ?a) (opt_start_pos ?a) (arg_lines ?a) =
          ((''[H+]'', ''[H+]'') # replicate 99 (''CCO'', ''CCO''), Some IndexError)"
      unfolding sp f using g [of 99] by simp
    then show ?thesis using nc
      by (rule run_of_generated [THEN trans])
         (simp add: dispatched_def exhaust_def sample_runtime_def first del: imap.simps)
  qed
  from small large show ?thesis by simp
qed

end
